theory Spec2Isabelle
  imports Complex_Main
begin

section \<open>Values, exceptions and the outside world\<close>

text \<open>
  The server (\<^verbatim>\<open>src/currents_server.py\<close>) handles the values that \<^verbatim>\<open>response.json()\<close>
  returns and hands dictionaries to \<^verbatim>\<open>json.dumps\<close>. Both are modelled by one datatype of
  Python values as JSON has them. A dictionary is an association list in insertion order,
  read with \<open>map_of\<close>. Python \<^verbatim>\<open>None\<close> is \<open>JNull\<close>. A Python \<^verbatim>\<open>float\<close> is a real number:
  rounding is not modelled. Characters are read as code points below 256.
  The functions below return the value passed to \<^verbatim>\<open>json.dumps\<close>, not its text.
\<close>

datatype json =
    JNull
  | JBool bool
  | JInt int
  | JFloat real
  | JStr string
  | JList "json list"
  | JObj "(string \<times> json) list"

text \<open>
  Exceptions are values. Each carries the text that \<^verbatim>\<open>str(e)\<close> gives. All are subclasses
  of \<^verbatim>\<open>Exception\<close>, so \<^verbatim>\<open>except Exception\<close> catches every one of them.
  \<^verbatim>\<open>json.JSONDecodeError\<close> and dateutil's \<^verbatim>\<open>ParserError\<close> are subclasses of
  \<^verbatim>\<open>ValueError\<close> and are represented by \<open>ValueError\<close>.
\<close>

datatype exn =
    ValueError string
  | TypeError string
  | AttributeError string
  | OverflowError string
  | HTTPStatusError string

fun str_exn :: "exn \<Rightarrow> string" where
  "str_exn (ValueError m) = m"
| "str_exn (TypeError m) = m"
| "str_exn (AttributeError m) = m"
| "str_exn (OverflowError m) = m"
| "str_exn (HTTPStatusError m) = m"

text \<open>Sequencing of computations that may raise.\<close>

definition and_then :: "exn + 'a \<Rightarrow> ('a \<Rightarrow> exn + 'b) \<Rightarrow> exn + 'b" where
  "and_then r f = (case r of Inl e \<Rightarrow> Inl e | Inr v \<Rightarrow> f v)"

subsection \<open>Python operations on values\<close>

text \<open>Truth value testing: \<^verbatim>\<open>None\<close>, \<^verbatim>\<open>False\<close>, zero and every empty container are false.\<close>

fun truthy :: "json \<Rightarrow> bool" where
  "truthy JNull = False"
| "truthy (JBool b) = b"
| "truthy (JInt i) = (i \<noteq> 0)"
| "truthy (JFloat x) = (x \<noteq> 0)"
| "truthy (JStr s) = (s \<noteq> [])"
| "truthy (JList xs) = (xs \<noteq> [])"
| "truthy (JObj d) = (d \<noteq> [])"

text \<open>The same test on an \<^verbatim>\<open>Optional[str]\<close>: \<^verbatim>\<open>None\<close> and the empty string are false.\<close>

fun truthy_str :: "string option \<Rightarrow> bool" where
  "truthy_str None = False"
| "truthy_str (Some s) = (s \<noteq> [])"

fun opt_json :: "string option \<Rightarrow> json" where
  "opt_json None = JNull"
| "opt_json (Some s) = JStr s"

fun type_name :: "json \<Rightarrow> string" where
  "type_name JNull = ''NoneType''"
| "type_name (JBool b) = ''bool''"
| "type_name (JInt i) = ''int''"
| "type_name (JFloat x) = ''float''"
| "type_name (JStr s) = ''str''"
| "type_name (JList xs) = ''list''"
| "type_name (JObj d) = ''dict''"

definition quote :: "string \<Rightarrow> string" where
  "quote s = CHR 0x27 # s @ [CHR 0x27]"

text \<open>The text of the \<^verbatim>\<open>AttributeError\<close> for a method the value does not have.\<close>

definition no_attribute :: "json \<Rightarrow> string \<Rightarrow> string" where
  "no_attribute v a = quote (type_name v) @ '' object has no attribute '' @ quote a"

definition dict_get :: "(string \<times> json) list \<Rightarrow> string \<Rightarrow> json \<Rightarrow> json" where
  "dict_get d k dflt = (case map_of d k of Some v \<Rightarrow> v | None \<Rightarrow> dflt)"

text \<open>\<^verbatim>\<open>x.get(k, default)\<close>: only a dictionary has the method.\<close>

fun py_get :: "json \<Rightarrow> string \<Rightarrow> json \<Rightarrow> exn + json" where
  "py_get (JObj d) k dflt = Inr (dict_get d k dflt)"
| "py_get v k dflt = Inl (AttributeError (no_attribute v ''get''))"

text \<open>
  \<^verbatim>\<open>str.isspace\<close> on the code points below 256, and \<^verbatim>\<open>str.strip()\<close>, which removes
  the whitespace at both ends.
\<close>

definition whitespace :: "char list" where
  "whitespace =
     [CHR 0x09, CHR 0x0A, CHR 0x0B, CHR 0x0C, CHR 0x0D, CHR 0x1C, CHR 0x1D, CHR 0x1E,
      CHR 0x1F, CHR 0x20, CHR 0x85, CHR 0xA0]"

definition isspace :: "char \<Rightarrow> bool" where
  "isspace c = (c \<in> set whitespace)"

definition strip :: "string \<Rightarrow> string" where
  "strip s = rev (dropWhile isspace (rev (dropWhile isspace s)))"

text \<open>\<^verbatim>\<open>x.strip()\<close>: only a string has the method.\<close>

fun py_strip :: "json \<Rightarrow> exn + json" where
  "py_strip (JStr s) = Inr (JStr (strip s))"
| "py_strip v = Inl (AttributeError (no_attribute v ''strip''))"

text \<open>
  \<^verbatim>\<open>xs[:m]\<close> on a sequence: a negative \<open>m\<close> counts from the end. On a value, as
  the list comprehension iterates it: a list gives its elements, a string its characters
  as one-character strings, anything else raises (the text for a dictionary is the one of
  CPython before 3.12; later versions raise \<^verbatim>\<open>KeyError\<close>, which is caught the same way).
\<close>

definition slice_upto :: "'a list \<Rightarrow> int \<Rightarrow> 'a list" where
  "slice_upto xs m =
     (if 0 \<le> m then take (nat m) xs else take (length xs - nat (- m)) xs)"

fun py_slice_upto :: "json \<Rightarrow> int \<Rightarrow> exn + json list" where
  "py_slice_upto (JList xs) m = Inr (slice_upto xs m)"
| "py_slice_upto (JStr s) m = Inr (map (\<lambda>c. JStr [c]) (slice_upto s m))"
| "py_slice_upto (JObj d) m = Inl (TypeError (''unhashable type: '' @ quote ''slice''))"
| "py_slice_upto v m = Inl (TypeError (quote (type_name v) @ '' object is not subscriptable''))"

text \<open>\<^verbatim>\<open>len(x)\<close>: strings, lists and dictionaries have a length.\<close>

fun py_len :: "json \<Rightarrow> exn + int" where
  "py_len (JStr s) = Inr (int (length s))"
| "py_len (JList xs) = Inr (int (length xs))"
| "py_len (JObj d) = Inr (int (length (remdups (map fst d))))"
| "py_len v = Inl (TypeError (''object of type '' @ quote (type_name v) @ '' has no len()''))"

text \<open>\<^verbatim>\<open>str(i)\<close> of an integer: its decimal digits.\<close>

definition digit_char :: "nat \<Rightarrow> char" where
  "digit_char n = ''0123456789'' ! n"

fun str_nat :: "nat \<Rightarrow> string" where
  "str_nat n = (if n < 10 then [digit_char n] else str_nat (n div 10) @ [digit_char (n mod 10)])"

declare str_nat.simps [simp del]

definition str_int :: "int \<Rightarrow> string" where
  "str_int i = (if i < 0 then CHR ''-'' # str_nat (nat (- i)) else str_nat (nat i))"

text \<open>Reading a field of a result: \<^verbatim>\<open>None\<close> when there is none.\<close>

fun json_field :: "json \<Rightarrow> string \<Rightarrow> json" where
  "json_field (JObj d) k = dict_get d k JNull"
| "json_field v k = JNull"

fun is_str :: "json \<Rightarrow> bool" where
  "is_str (JStr s) = True"
| "is_str v = False"

subsection \<open>Configuration\<close>

text \<open>
  The module constants that are read from the environment at import time, and
  \<^verbatim>\<open>dateutil.parser.parse\<close>, which is a library outside the repository: it is a parameter,
  \<open>None\<close> when it returns a date and \<open>Some e\<close> when it raises \<open>e\<close>.
\<close>

record env =
  CURRENTS_API_KEY :: "string option"
  DEFAULT_TIMEOUT :: int
  DEFAULT_LANGUAGE :: string
  MAX_RESULTS :: int
  date_parser_parse :: "string \<Rightarrow> exn option"

definition API_BASE_URL :: string where
  "API_BASE_URL = ''https://api.currentsapi.services/v1''"

definition CACHE_TTL :: real where
  "CACHE_TTL = 300"

definition get_api_key :: "env \<Rightarrow> string option" where
  "get_api_key e = CURRENTS_API_KEY e"

section \<open>The cache\<close>

text \<open>
  \<^verbatim>\<open>_cache\<close> maps a key to \<^verbatim>\<open>{"data": ..., "timestamp": ...}\<close>. The reading of
  \<^verbatim>\<open>time.time()\<close> is the argument \<open>now\<close> of each function that takes one.
\<close>

record cache_entry =
  data :: json
  timestamp :: real

type_synonym cache = "string \<rightharpoonup> cache_entry"

definition is_cache_valid :: "real \<Rightarrow> cache \<Rightarrow> string \<Rightarrow> bool" where
  "is_cache_valid now c cache_key =
     (case c cache_key of
        None \<Rightarrow> False
      | Some entry \<Rightarrow> now - timestamp entry < CACHE_TTL)"

text \<open>
  \<^verbatim>\<open>_cache[cache_key]\<close> is read only after \<open>is_cache_valid\<close> found the key, so its
  \<^verbatim>\<open>KeyError\<close> cannot happen; the result \<^verbatim>\<open>None\<close> is \<open>JNull\<close>.
\<close>

definition get_cached_data :: "real \<Rightarrow> cache \<Rightarrow> string \<Rightarrow> json" where
  "get_cached_data now c cache_key =
     (if is_cache_valid now c cache_key
      then (case c cache_key of Some entry \<Rightarrow> data entry | None \<Rightarrow> JNull)
      else JNull)"

definition set_cached_data :: "real \<Rightarrow> cache \<Rightarrow> string \<Rightarrow> json \<Rightarrow> cache" where
  "set_cached_data now c cache_key v = c(cache_key \<mapsto> \<lparr>data = v, timestamp = now\<rparr>)"

section \<open>The transport\<close>

text \<open>
  The httpx library is outside the repository. What \<^verbatim>\<open>client.get\<close> does for a request
  is an argument \<open>net\<close> of every operation: it returns a response, raises
  \<^verbatim>\<open>httpx.TimeoutException\<close>, or raises another \<^verbatim>\<open>httpx.RequestError\<close> with a text. A
  response gives its status code, what \<^verbatim>\<open>raise_for_status()\<close> does (\<open>None\<close>: returns;
  \<open>Some m\<close>: raises \<^verbatim>\<open>HTTPStatusError\<close> with text \<open>m\<close>) and what \<^verbatim>\<open>json()\<close> does
  (\<open>Inr v\<close>: returns \<open>v\<close>; \<open>Inl m\<close>: raises \<^verbatim>\<open>JSONDecodeError\<close> with text \<open>m\<close>).
\<close>

record response =
  status_code :: int
  raise_for_status :: "string option"
  json_body :: "string + json"

datatype transport = Responded response | TimeoutException | RequestError string

record request =
  req_url :: string
  req_params :: "(string \<times> string) list"
  req_headers :: "(string \<times> string) list"

text \<open>
  The mutable globals: \<^verbatim>\<open>_cache\<close>, whether \<^verbatim>\<open>http_client\<close> has been created, and,
  to observe the network, the requests handed to \<^verbatim>\<open>client.get\<close> so far.
\<close>

record state =
  cache :: cache
  http_client :: bool
  sent :: "request list"

definition get_http_client :: "state \<Rightarrow> state" where
  "get_http_client s = (if \<not> http_client s then s\<lparr>http_client := True\<rparr> else s)"

definition make_api_request ::
    "env \<Rightarrow> (request \<Rightarrow> transport) \<Rightarrow> string \<Rightarrow> (string \<times> string) list \<Rightarrow> state
      \<Rightarrow> (exn + json) \<times> state" where
  "make_api_request e net endpoint ps s =
     (case get_api_key e of
        None \<Rightarrow> (Inl (ValueError ''CURRENTS_API_KEY environment variable is required''), s)
      | Some api_key \<Rightarrow>
          if api_key = []
          then (Inl (ValueError ''CURRENTS_API_KEY environment variable is required''), s)
          else
            (let s1 = get_http_client s;
                 rq = \<lparr>req_url = API_BASE_URL @ ''/'' @ endpoint,
                       req_params = ps,
                       req_headers = [(''User-Agent'', ''CurrentsMCP/1.0''),
                                      (''Authorization'', ''Bearer '' @ api_key)]\<rparr>;
                 s2 = s1\<lparr>sent := sent s1 @ [rq]\<rparr>
             in (case net rq of
                   TimeoutException \<Rightarrow>
                     Inl (ValueError (''Request timeout after '' @ str_int (DEFAULT_TIMEOUT e)
                                       @ '' seconds''))
                 | RequestError m \<Rightarrow> Inl (ValueError (''Network error: '' @ m))
                 | Responded r \<Rightarrow>
                     if status_code r = 401
                     then Inl (ValueError ''Invalid API key. Please check your CURRENTS_API_KEY.'')
                     else if status_code r = 429
                     then Inl (ValueError
                            ''Rate limit exceeded. Free tier allows 600 requests per hour.'')
                     else if status_code r = 400
                     then Inl (ValueError ''Bad request. Please check your parameters.'')
                     else if status_code r \<ge> 500
                     then Inl (ValueError ''API server error. Please try again later.'')
                     else (case raise_for_status r of
                             Some m \<Rightarrow> Inl (HTTPStatusError m)
                           | None \<Rightarrow>
                               (case json_body r of
                                  Inl m \<Rightarrow> Inl (ValueError m)
                                | Inr v \<Rightarrow> Inr v)),
                 s2)))"

section \<open>Date validation\<close>

text \<open>Only \<^verbatim>\<open>ValueError\<close> and \<^verbatim>\<open>TypeError\<close> are caught; anything else propagates.\<close>

definition validate_date_format :: "env \<Rightarrow> string \<Rightarrow> exn + bool" where
  "validate_date_format e date_str =
     (case date_parser_parse e date_str of
        None \<Rightarrow> Inr True
      | Some (ValueError m) \<Rightarrow> Inr False
      | Some (TypeError m) \<Rightarrow> Inr False
      | Some x \<Rightarrow> Inl x)"

text \<open>
  The format that the docstrings of \<^verbatim>\<open>search_news\<close> name as ISO 8601,
  \<^verbatim>\<open>YYYY-MM-DDTHH:MM:SS+00:00\<close>: digits at the letters, the separators as written, a sign
  before the offset.
\<close>

definition is_digit :: "char \<Rightarrow> bool" where
  "is_digit c = (c \<in> set ''0123456789'')"

fun matches_mask :: "string \<Rightarrow> string \<Rightarrow> bool" where
  "matches_mask [] [] = True"
| "matches_mask (m # ms) (c # cs) =
     ((if m = CHR ''9'' then is_digit c
       else if m = CHR ''+'' then c = CHR ''+'' \<or> c = CHR ''-''
       else c = m) \<and> matches_mask ms cs)"
| "matches_mask ms cs = False"



definition iso_8601_format :: "string \<Rightarrow> bool" where
  "iso_8601_format s = matches_mask ''9999-99-99T99:99:99+99:99'' s"

section \<open>The response normalizer\<close>

text \<open>
  The dictionary display evaluates its values in order, so the first failing
  \<^verbatim>\<open>.get\<close> or \<^verbatim>\<open>.strip()\<close> is the exception raised. The argument is whatever element
  the provider's list holds, a dictionary or not.
\<close>

definition format_news_article :: "json \<Rightarrow> exn + json" where
  "format_news_article article =
     and_then (py_get article ''id'' (JStr '''')) (\<lambda>v_id.
     and_then (and_then (py_get article ''title'' (JStr '''')) py_strip) (\<lambda>v_title.
     and_then (and_then (py_get article ''description'' (JStr '''')) py_strip) (\<lambda>v_description.
     and_then (py_get article ''url'' (JStr '''')) (\<lambda>v_url.
     and_then (py_get article ''author'' (JStr ''Unknown'')) (\<lambda>v_author.
     and_then (py_get article ''image'' JNull) (\<lambda>probe.
     and_then (if probe \<noteq> JStr ''None'' then py_get article ''image'' JNull else Inr JNull)
       (\<lambda>v_image.
     and_then (py_get article ''language'' (JStr '''')) (\<lambda>v_language.
     and_then (py_get article ''category'' (JList [])) (\<lambda>v_category.
     and_then (py_get article ''published'' (JStr '''')) (\<lambda>v_published.
       Inr (JObj
         [(''id'', v_id),
          (''title'', v_title),
          (''description'', v_description),
          (''url'', v_url),
          (''author'', v_author),
          (''image'', v_image),
          (''language'', v_language),
          (''category'', v_category),
          (''published'', v_published),
          (''source'', JStr ''Currents API'')])))))))))))"

text \<open>
  What "trimmed of surrounding whitespace" means: \<open>u\<close> is \<open>t\<close> without a prefix and a
  suffix of whitespace, and \<open>u\<close> neither starts nor ends with whitespace.
\<close>

definition trimmed_of :: "string \<Rightarrow> string \<Rightarrow> bool" where
  "trimmed_of t u =
     ((\<exists>p q. t = p @ u @ q \<and> (\<forall>c \<in> set p. isspace c) \<and> (\<forall>c \<in> set q. isspace c))
      \<and> (u = [] \<or> (\<not> isspace (hd u) \<and> \<not> isspace (last u))))"

text \<open>The list comprehension over the selected articles: the first failure is raised.\<close>

fun format_all :: "json list \<Rightarrow> exn + json list" where
  "format_all [] = Inr []"
| "format_all (a # as) =
     and_then (format_news_article a) (\<lambda>r.
     and_then (format_all as) (\<lambda>rs. Inr (r # rs)))"

section \<open>The operations\<close>

text \<open>
  Every tool wraps its body in \<^verbatim>\<open>try\<close> ... \<^verbatim>\<open>except Exception as e\<close> and returns
  \<^verbatim>\<open>{"status": "error", "message": str(e)}\<close> for an exception. A body is a pair of
  its outcome and the state it leaves; changes to the state made before an exception stay.
\<close>

definition error_result :: "string \<Rightarrow> json" where
  "error_result m = JObj [(''status'', JStr ''error''), (''message'', JStr m)]"

definition except_Exception :: "(exn + json) \<times> state \<Rightarrow> json \<times> state" where
  "except_Exception body =
     (case fst body of
        Inl e \<Rightarrow> (error_result (str_exn e), snd body)
      | Inr v \<Rightarrow> (v, snd body))"

subsection \<open>Search\<close>

text \<open>
  The condition \<^verbatim>\<open>d and not validate_date_format(d)\<close>: false for \<^verbatim>\<open>None\<close> and for the
  empty string without calling the validator.
\<close>

definition date_rejected :: "env \<Rightarrow> string option \<Rightarrow> exn + bool" where
  "date_rejected e d =
     (case d of
        None \<Rightarrow> Inr False
      | Some date_str \<Rightarrow>
          if date_str = [] then Inr False
          else and_then (validate_date_format e date_str) (\<lambda>ok. Inr (\<not> ok)))"

text \<open>\<^verbatim>\<open>if v: params[k] = v\<close>\<close>

definition add_param ::
    "string \<Rightarrow> string option \<Rightarrow> (string \<times> string) list \<Rightarrow> (string \<times> string) list" where
  "add_param k v ps =
     (case v of
        None \<Rightarrow> ps
      | Some x \<Rightarrow> if x = [] then ps else ps @ [(k, x)])"

definition search_news ::
    "env \<Rightarrow> (request \<Rightarrow> transport)
      \<Rightarrow> string option \<Rightarrow> string option \<Rightarrow> string option
      \<Rightarrow> string option \<Rightarrow> string option \<Rightarrow> string option
      \<Rightarrow> state \<Rightarrow> json \<times> state" where
  "search_news e net keywords language country category start_date end_date s =
     except_Exception
       (case date_rejected e start_date of
          Inl x \<Rightarrow> (Inl x, s)
        | Inr bad_start \<Rightarrow>
            if bad_start
            then (Inr (error_result
                    ''Invalid start_date format. Use ISO 8601: YYYY-MM-DDTHH:MM:SS+00:00''), s)
            else
              (case date_rejected e end_date of
                 Inl x \<Rightarrow> (Inl x, s)
               | Inr bad_end \<Rightarrow>
                   if bad_end
                   then (Inr (error_result
                           ''Invalid end_date format. Use ISO 8601: YYYY-MM-DDTHH:MM:SS+00:00''), s)
                   else
                     (let ps = add_param ''end_date'' end_date
                                (add_param ''start_date'' start_date
                                (add_param ''category'' category
                                (add_param ''country'' country
                                (add_param ''language'' language
                                (add_param ''keywords'' keywords [])))));
                          called = make_api_request e net ''search'' ps s
                      in (and_then (fst called) (\<lambda>response.
                          and_then (py_get response ''status'' JNull) (\<lambda>status.
                            if status = JStr ''ok''
                            then
                              and_then (py_get response ''news'' (JList [])) (\<lambda>articles.
                              and_then (py_slice_upto articles (MAX_RESULTS e)) (\<lambda>selected.
                              and_then (format_all selected) (\<lambda>formatted_articles.
                                Inr (JObj
                                  [(''status'', JStr ''success''),
                                   (''total_results'', JInt (int (length formatted_articles))),
                                   (''articles'', JList formatted_articles),
                                   (''search_params'', JObj
                                      [(''keywords'', opt_json keywords),
                                       (''language'', opt_json language),
                                       (''country'', opt_json country),
                                       (''category'', opt_json category),
                                       (''start_date'', opt_json start_date),
                                       (''end_date'', opt_json end_date)])]))))
                            else Inr (error_result ''No results found or API error occurred''))),
                          snd called))))"

subsection \<open>Latest news\<close>

text \<open>\<open>now_iso\<close> is the text of \<^verbatim>\<open>datetime.now().isoformat()\<close>.\<close>

definition get_latest_news ::
    "env \<Rightarrow> (request \<Rightarrow> transport) \<Rightarrow> string \<Rightarrow> string option \<Rightarrow> state \<Rightarrow> json \<times> state" where
  "get_latest_news e net now_iso language s =
     except_Exception
       (let lang = (case language of
                      None \<Rightarrow> DEFAULT_LANGUAGE e
                    | Some l \<Rightarrow> if l = [] then DEFAULT_LANGUAGE e else l);
            called = make_api_request e net ''latest-news'' [(''language'', lang)] s
        in (and_then (fst called) (\<lambda>response.
            and_then (py_get response ''status'' JNull) (\<lambda>status.
              if status = JStr ''ok''
              then
                and_then (py_get response ''news'' (JList [])) (\<lambda>articles.
                and_then (py_slice_upto articles (MAX_RESULTS e)) (\<lambda>selected.
                and_then (format_all selected) (\<lambda>formatted_articles.
                  Inr (JObj
                    [(''status'', JStr ''success''),
                     (''language'', JStr lang),
                     (''total_results'', JInt (int (length formatted_articles))),
                     (''articles'', JList formatted_articles),
                     (''retrieved_at'', JStr now_iso)]))))
              else Inr (error_result ''Failed to retrieve latest news''))),
            snd called))"

subsection \<open>Reference lookups\<close>

text \<open>
  \<^verbatim>\<open>get_available_languages\<close>, \<^verbatim>\<open>get_available_regions\<close> and
  \<^verbatim>\<open>get_available_categories\<close> have the same body and differ in five constants: the
  cache key (also the key of the response and of the result), the endpoint, the default
  of \<^verbatim>\<open>response.get\<close>, the key of the count and the failure message. \<open>t_valid\<close> is the
  reading of \<^verbatim>\<open>time.time()\<close> in \<open>is_cache_valid\<close>, \<open>t_set\<close> the one in
  \<open>set_cached_data\<close>, which runs before \<^verbatim>\<open>len\<close> is evaluated.
\<close>

datatype reference = Languages | Regions | Categories

fun cache_key_of :: "reference \<Rightarrow> string" where
  "cache_key_of Languages = ''languages''"
| "cache_key_of Regions = ''regions''"
| "cache_key_of Categories = ''categories''"

fun endpoint_of :: "reference \<Rightarrow> string" where
  "endpoint_of Languages = ''available/languages''"
| "endpoint_of Regions = ''available/regions''"
| "endpoint_of Categories = ''available/category''"

fun default_of :: "reference \<Rightarrow> json" where
  "default_of Languages = JObj []"
| "default_of Regions = JObj []"
| "default_of Categories = JList []"

fun total_key_of :: "reference \<Rightarrow> string" where
  "total_key_of Languages = ''total_languages''"
| "total_key_of Regions = ''total_regions''"
| "total_key_of Categories = ''total_categories''"

fun failure_of :: "reference \<Rightarrow> string" where
  "failure_of Languages = ''Failed to retrieve supported languages''"
| "failure_of Regions = ''Failed to retrieve supported regions''"
| "failure_of Categories = ''Failed to retrieve supported categories''"

definition reference_lookup ::
    "reference \<Rightarrow> env \<Rightarrow> (request \<Rightarrow> transport) \<Rightarrow> real \<Rightarrow> real \<Rightarrow> state \<Rightarrow> json \<times> state" where
  "reference_lookup ref e net t_valid t_set s =
     except_Exception
       (let cached_data = get_cached_data t_valid (cache s) (cache_key_of ref)
        in if truthy cached_data
           then (Inr (JObj
                   [(''status'', JStr ''success''),
                    (''source'', JStr ''cache''),
                    (cache_key_of ref, cached_data)]), s)
           else
             (let called = make_api_request e net (endpoint_of ref) [] s
              in (case fst called of
                    Inl x \<Rightarrow> (Inl x, snd called)
                  | Inr response \<Rightarrow>
                      (case py_get response ''status'' JNull of
                         Inl x \<Rightarrow> (Inl x, snd called)
                       | Inr status \<Rightarrow>
                           if status = JStr ''ok''
                           then
                             (case py_get response (cache_key_of ref) (default_of ref) of
                                Inl x \<Rightarrow> (Inl x, snd called)
                              | Inr items \<Rightarrow>
                                  (let s2 = (snd called)
                                         \<lparr>cache := set_cached_data t_set (cache (snd called))
                                                     (cache_key_of ref) items\<rparr>
                                   in (and_then (py_len items) (\<lambda>n.
                                         Inr (JObj
                                           [(''status'', JStr ''success''),
                                            (''source'', JStr ''api''),
                                            (cache_key_of ref, items),
                                            (total_key_of ref, JInt n)])),
                                       s2)))
                           else (Inr (error_result (failure_of ref)), snd called)))))"

definition get_available_languages ::
    "env \<Rightarrow> (request \<Rightarrow> transport) \<Rightarrow> real \<Rightarrow> real \<Rightarrow> state \<Rightarrow> json \<times> state" where
  "get_available_languages = reference_lookup Languages"

definition get_available_regions ::
    "env \<Rightarrow> (request \<Rightarrow> transport) \<Rightarrow> real \<Rightarrow> real \<Rightarrow> state \<Rightarrow> json \<times> state" where
  "get_available_regions = reference_lookup Regions"

definition get_available_categories ::
    "env \<Rightarrow> (request \<Rightarrow> transport) \<Rightarrow> real \<Rightarrow> real \<Rightarrow> state \<Rightarrow> json \<times> state" where
  "get_available_categories = reference_lookup Categories"

subsection \<open>Status check\<close>

text \<open>
  Its \<^verbatim>\<open>except\<close> clause builds its own result. \<open>t_l\<close>, \<open>t_r\<close> and \<open>t_c\<close> are the
  readings of \<^verbatim>\<open>time.time()\<close> in the three \<open>is_cache_valid\<close> calls.
\<close>

definition api_key_masked :: "string \<Rightarrow> string" where
  "api_key_masked api_key = (if length api_key > 8 then take 8 api_key @ ''...'' else ''***'')"

definition check_api_status ::
    "env \<Rightarrow> (request \<Rightarrow> transport) \<Rightarrow> real \<Rightarrow> real \<Rightarrow> real \<Rightarrow> state \<Rightarrow> json \<times> state" where
  "check_api_status e net t_l t_r t_c s =
     (if \<not> truthy_str (get_api_key e)
      then
        (JObj
          [(''status'', JStr ''error''),
           (''message'', JStr ''CURRENTS_API_KEY environment variable not set''),
           (''configuration'', JObj
              [(''api_key_set'', JBool False),
               (''base_url'', JStr API_BASE_URL),
               (''timeout'', JInt (DEFAULT_TIMEOUT e)),
               (''default_language'', JStr (DEFAULT_LANGUAGE e)),
               (''max_results'', JInt (MAX_RESULTS e))]),
           (''troubleshooting'', JList
              [JStr ''Set CURRENTS_API_KEY environment variable'',
               JStr ''Get free API key from https://currentsapi.services'',
               JStr ''Ensure API key has proper permissions''])], s)
      else
        (let api_key = (case get_api_key e of Some k \<Rightarrow> k | None \<Rightarrow> []);
             called = make_api_request e net ''latest-news'' [(''language'', ''en'')] s
         in (case and_then (fst called) (\<lambda>test_response.
                  and_then (py_get test_response ''status'' JNull) (\<lambda>status.
                    if status = JStr ''ok''
                    then
                      and_then (py_get test_response ''news'' (JList [])) (\<lambda>news.
                      and_then (py_len news) (\<lambda>articles_count.
                        Inr (JObj
                          [(''status'', JStr ''success''),
                           (''message'', JStr ''API connection successful''),
                           (''configuration'', JObj
                              [(''api_key_set'', JBool True),
                               (''api_key_masked'', JStr (api_key_masked api_key)),
                               (''base_url'', JStr API_BASE_URL),
                               (''timeout'', JInt (DEFAULT_TIMEOUT e)),
                               (''default_language'', JStr (DEFAULT_LANGUAGE e)),
                               (''max_results'', JInt (MAX_RESULTS e))]),
                           (''test_result'', JObj
                              [(''endpoint_tested'', JStr ''latest-news''),
                               (''response_received'', JBool True),
                               (''articles_count'', JInt articles_count)]),
                           (''cache_status'', JObj
                              [(''languages_cached'',
                                  JBool (is_cache_valid t_l (cache (snd called)) ''languages'')),
                               (''regions_cached'',
                                  JBool (is_cache_valid t_r (cache (snd called)) ''regions'')),
                               (''categories_cached'',
                                  JBool (is_cache_valid t_c (cache (snd called))
                                           ''categories''))])])))
                    else
                      Inr (JObj
                        [(''status'', JStr ''error''),
                         (''message'', JStr ''API test failed''),
                         (''configuration'', JObj
                            [(''api_key_set'', JBool True),
                             (''api_key_masked'', JStr (api_key_masked api_key)),
                             (''base_url'', JStr API_BASE_URL)])]))) of
               Inl x \<Rightarrow>
                 (JObj
                   [(''status'', JStr ''error''),
                    (''message'', JStr (''API status check failed: '' @ str_exn x)),
                    (''troubleshooting'', JList
                       [JStr ''Check internet connection'',
                        JStr ''Verify API key is correct'',
                        JStr ''Check if API service is operational'',
                        JStr ''Ensure no firewall blocking the connection''])],
                  snd called)
             | Inr v \<Rightarrow> (v, snd called))))"

subsection \<open>The tools as one entry point\<close>

text \<open>
  The host calls one of the six registered tools with its arguments. An invocation also
  fixes what the outside world answers during it: the transport and the clock readings.
\<close>

datatype tool_call =
    SearchNews "string option" "string option" "string option"
               "string option" "string option" "string option"
  | GetLatestNews "string option"
  | GetAvailable reference
  | CheckApiStatus

record readings =
  t_valid :: real
  t_set :: real
  t_languages :: real
  t_regions :: real
  t_categories :: real
  now_isoformat :: string

fun call_tool ::
    "env \<Rightarrow> (request \<Rightarrow> transport) \<Rightarrow> readings \<Rightarrow> tool_call \<Rightarrow> state \<Rightarrow> json \<times> state" where
  "call_tool e net rd (SearchNews keywords language country category start_date end_date) s =
     search_news e net keywords language country category start_date end_date s"
| "call_tool e net rd (GetLatestNews language) s =
     get_latest_news e net (now_isoformat rd) language s"
| "call_tool e net rd (GetAvailable Languages) s =
     get_available_languages e net (t_valid rd) (t_set rd) s"
| "call_tool e net rd (GetAvailable Regions) s =
     get_available_regions e net (t_valid rd) (t_set rd) s"
| "call_tool e net rd (GetAvailable Categories) s =
     get_available_categories e net (t_valid rd) (t_set rd) s"
| "call_tool e net rd CheckApiStatus s =
     check_api_status e net (t_languages rd) (t_regions rd) (t_categories rd) s"

subsection \<open>The module as imported, for the examples\<close>

text \<open>
  The defaults of the configuration (\<^verbatim>\<open>API_TIMEOUT\<close> 15, \<^verbatim>\<open>DEFAULT_LANGUAGE\<close> \<^verbatim>\<open>en\<close>,
  \<^verbatim>\<open>MAX_RESULTS\<close> 20) and the globals as the module initialises them. \<open>sample_parser\<close>
  stands for dateutil on the strings of the examples only: it returns a date for
  \<^verbatim>\<open>2024-01-05T00:00:00+00:00\<close> and \<^verbatim>\<open>Jan 5 2020\<close>, raises its \<^verbatim>\<open>ParserError\<close>
  for the empty string and for \<^verbatim>\<open>not-a-date\<close>, and raises \<^verbatim>\<open>OverflowError\<close> for
  \<^verbatim>\<open>99999999999\<close>, which it reads as a year that \<^verbatim>\<open>datetime.replace\<close> cannot take.
\<close>

definition sample_parser :: "string \<Rightarrow> exn option" where
  "sample_parser date_str =
     (if date_str = ''2024-01-05T00:00:00+00:00'' \<or> date_str = ''Jan 5 2020'' then None
      else if date_str = ''99999999999''
      then Some (OverflowError ''signed integer is greater than maximum'')
      else if date_str = [] then Some (ValueError ''String does not contain a date: '')
      else Some (ValueError (''Unknown string format: '' @ date_str)))"

definition default_env :: "string option \<Rightarrow> env" where
  "default_env api_key =
     \<lparr>CURRENTS_API_KEY = api_key, DEFAULT_TIMEOUT = 15, DEFAULT_LANGUAGE = ''en'',
      MAX_RESULTS = 20, date_parser_parse = sample_parser\<rparr>"

definition initial_state :: state where
  "initial_state = \<lparr>cache = Map.empty, http_client = False, sent = []\<rparr>"

definition ok_response :: "json \<Rightarrow> transport" where
  "ok_response body = Responded \<lparr>status_code = 200, raise_for_status = None, json_body = Inr body\<rparr>"

definition status_response :: "int \<Rightarrow> transport" where
  "status_response code =
     Responded \<lparr>status_code = code, raise_for_status = Some ''Client error'',
                json_body = Inr (JObj [])\<rparr>"

text \<open>
  What "an error-tagged result carrying the message \<open>m\<close>" means for the result of a
  tool: its \<^verbatim>\<open>status\<close> is \<^verbatim>\<open>"error"\<close> and its \<^verbatim>\<open>message\<close> is \<open>m\<close>, which the status check
  prefixes with its own words.
\<close>

definition reports :: "tool_call \<Rightarrow> json \<Rightarrow> string \<Rightarrow> bool" where
  "reports call result m =
     (json_field result ''status'' = JStr ''error''
      \<and> json_field result ''message'' =
          JStr ((case call of CheckApiStatus \<Rightarrow> ''API status check failed: '' | _ \<Rightarrow> []) @ m))"

section \<open>Properties\<close>

text \<open>
  Claim C4. For every cache key: \<open>is_cache_valid\<close> is true exactly when an entry exists
  and the time elapsed since its timestamp is strictly less than \<open>CACHE_TTL = 300\<close>; after
  a \<open>set_cached_data\<close> it is false once exactly 300 time units have elapsed and true
  for every elapsed time below 300; \<open>get_cached_data\<close> returns the stored value when the
  entry is valid and \<^verbatim>\<open>None\<close> otherwise, for an expired entry as for a missing one.
\<close>

theorem cache_validity:
  "CACHE_TTL = 300
   \<and> is_cache_valid now c k = (\<exists>entry. c k = Some entry \<and> now - timestamp entry < 300)
   \<and> is_cache_valid (t + 300) (set_cached_data t c k v) k = False
   \<and> is_cache_valid (t + d) (set_cached_data t c k v) k = (d < 300)
   \<and> get_cached_data now c k =
       (case c k of
          None \<Rightarrow> JNull
        | Some entry \<Rightarrow> if is_cache_valid now c k then data entry else JNull)
   \<and> get_cached_data (t + d) (set_cached_data t c k v) k = (if d < 300 then v else JNull)"
  by (auto simp: is_cache_valid_def get_cached_data_def set_cached_data_def CACHE_TTL_def
      split: option.splits)

subsection \<open>Helper lemmas\<close>

lemma strip_trimmed: "trimmed_of t (strip t)"
proof -
  define d where "d = dropWhile isspace t"
  define u where "u = rev (dropWhile isspace (rev d))"
  define q where "q = rev (takeWhile isspace (rev d))"
  have u: "strip t = u" by (simp add: strip_def u_def d_def)
  have d: "d = u @ q"
    unfolding u_def q_def by (metis rev_append rev_rev_ident takeWhile_dropWhile_id)
  have t: "t = takeWhile isspace t @ u @ q"
    by (metis d d_def takeWhile_dropWhile_id)
  have p_ws: "\<forall>c \<in> set (takeWhile isspace t). isspace c"
    by (auto dest: set_takeWhileD)
  have q_ws: "\<forall>c \<in> set q. isspace c"
    by (auto simp: q_def dest: set_takeWhileD)
  have ends: "\<not> isspace (hd u) \<and> \<not> isspace (last u)" if "u \<noteq> []"
  proof -
    have "dropWhile isspace (rev d) \<noteq> []" using that by (simp add: u_def)
    then have "\<not> isspace (hd (dropWhile isspace (rev d)))" by (rule hd_dropWhile)
    then have l: "\<not> isspace (last u)"
      using that by (simp add: u_def last_rev)
    have "d \<noteq> []" using that d by simp
    then have "\<not> isspace (hd d)" unfolding d_def by (rule hd_dropWhile)
    then have "\<not> isspace (hd u)" using d that by (metis hd_append2)
    with l show ?thesis by simp
  qed
  show ?thesis
    unfolding trimmed_of_def u using t p_ws q_ws ends by blast
qed

lemma format_fields:
  assumes "format_news_article article = Inr r"
  shows "\<exists>d t u. article = JObj d
     \<and> dict_get d ''title'' (JStr '''') = JStr t
     \<and> dict_get d ''description'' (JStr '''') = JStr u
     \<and> r = JObj
         [(''id'', dict_get d ''id'' (JStr '''')),
          (''title'', JStr (strip t)),
          (''description'', JStr (strip u)),
          (''url'', dict_get d ''url'' (JStr '''')),
          (''author'', dict_get d ''author'' (JStr ''Unknown'')),
          (''image'', if dict_get d ''image'' JNull \<noteq> JStr ''None'' then dict_get d ''image'' JNull else JNull),
          (''language'', dict_get d ''language'' (JStr '''')),
          (''category'', dict_get d ''category'' (JList [])),
          (''published'', dict_get d ''published'' (JStr '''')),
          (''source'', JStr ''Currents API'')]"
proof (cases article)
  case (JObj d)
  show ?thesis
    using assms unfolding JObj
    apply (cases "dict_get d ''title'' (JStr '''')"; cases "dict_get d ''description'' (JStr '''')")
    apply (simp_all add: format_news_article_def and_then_def)
    apply auto
    done
qed (use assms in \<open>simp_all add: format_news_article_def and_then_def\<close>)

subsection \<open>The claims\<close>

text \<open>
  Claim C1, as amended. For a dictionary article, \<open>format_news_article\<close> returns a
  result exactly when \<^verbatim>\<open>title\<close> and \<^verbatim>\<open>description\<close> are each absent or a string, so a
  missing field never makes it fail; when one of the two is present with another value
  (\<^verbatim>\<open>None\<close>, a number, a list), \<^verbatim>\<open>.strip()\<close> raises \<^verbatim>\<open>AttributeError\<close>.
\<close>

theorem format_news_article_returns_iff:
  "(if is_str (dict_get d ''title'' (JStr '''')) \<and> is_str (dict_get d ''description'' (JStr ''''))
    then \<exists>r. format_news_article (JObj d) = Inr (JObj r)
    else \<exists>m. format_news_article (JObj d) = Inl (AttributeError m))"
  apply (cases "dict_get d ''title'' (JStr '''')"; cases "dict_get d ''description'' (JStr '''')")
  apply (simp_all add: format_news_article_def and_then_def)
  done

text \<open>
  Claim C1 as stated fails: an article whose \<^verbatim>\<open>title\<close> is \<^verbatim>\<open>None\<close> makes
  \<open>format_news_article\<close> raise.
\<close>

theorem format_news_article_none_title_raises:
  "format_news_article (JObj [(''title'', JNull)])
     = Inl (AttributeError (no_attribute JNull ''strip''))"
  by (simp add: format_news_article_def and_then_def dict_get_def)

text \<open>
  Claim C8. Whenever \<open>format_news_article\<close> returns an output, the article is a
  dictionary and the output has \<^verbatim>\<open>author\<close> \<^verbatim>\<open>"Unknown"\<close> when the article has no author,
  \<^verbatim>\<open>image\<close> \<^verbatim>\<open>None\<close> when the raw image is the string \<^verbatim>\<open>"None"\<close>, \<^verbatim>\<open>category\<close> the empty
  list when the article has no category, \<^verbatim>\<open>title\<close> and \<^verbatim>\<open>description\<close> trimmed of
  surrounding whitespace, and \<^verbatim>\<open>source\<close> \<^verbatim>\<open>"Currents API"\<close>.
\<close>

theorem normalized_fields:
  assumes "format_news_article article = Inr r"
  shows "\<exists>d t u. article = JObj d
     \<and> (map_of d ''author'' = None \<longrightarrow> json_field r ''author'' = JStr ''Unknown'')
     \<and> (map_of d ''image'' = Some (JStr ''None'') \<longrightarrow> json_field r ''image'' = JNull)
     \<and> (map_of d ''category'' = None \<longrightarrow> json_field r ''category'' = JList [])
     \<and> dict_get d ''title'' (JStr '''') = JStr t
     \<and> json_field r ''title'' = JStr (strip t) \<and> trimmed_of t (strip t)
     \<and> dict_get d ''description'' (JStr '''') = JStr u
     \<and> json_field r ''description'' = JStr (strip u) \<and> trimmed_of u (strip u)
     \<and> json_field r ''source'' = JStr ''Currents API''"
proof -
  from format_fields [OF assms] obtain d t u where
    a: "article = JObj d" and t: "dict_get d ''title'' (JStr '''') = JStr t"
    and u: "dict_get d ''description'' (JStr '''') = JStr u"
    and r: "r = JObj
         [(''id'', dict_get d ''id'' (JStr '''')),
          (''title'', JStr (strip t)),
          (''description'', JStr (strip u)),
          (''url'', dict_get d ''url'' (JStr '''')),
          (''author'', dict_get d ''author'' (JStr ''Unknown'')),
          (''image'', if dict_get d ''image'' JNull \<noteq> JStr ''None'' then dict_get d ''image'' JNull else JNull),
          (''language'', dict_get d ''language'' (JStr '''')),
          (''category'', dict_get d ''category'' (JList [])),
          (''published'', dict_get d ''published'' (JStr '''')),
          (''source'', JStr ''Currents API'')]"
    by blast
  show ?thesis
    apply (rule exI [of _ d], rule exI [of _ t], rule exI [of _ u])
    apply (simp add: a t u r strip_trimmed)
    apply (simp add: dict_get_def split: option.splits)
    done
qed

theorem normalized_fields_witness:
  "format_news_article (JObj [(''title'', JStr '' A b ''), (''image'', JStr ''None'')])
     = Inr (JObj
         [(''id'', JStr ''''), (''title'', JStr ''A b''), (''description'', JStr ''''),
          (''url'', JStr ''''), (''author'', JStr ''Unknown''), (''image'', JNull),
          (''language'', JStr ''''), (''category'', JList []), (''published'', JStr ''''),
          (''source'', JStr ''Currents API'')])
   \<and> trimmed_of '' A b '' ''A b''"
proof -
  have run: "format_news_article (JObj [(''title'', JStr '' A b ''), (''image'', JStr ''None'')])
     = Inr (JObj
         [(''id'', JStr ''''), (''title'', JStr ''A b''), (''description'', JStr ''''),
          (''url'', JStr ''''), (''author'', JStr ''Unknown''), (''image'', JNull),
          (''language'', JStr ''''), (''category'', JList []), (''published'', JStr ''''),
          (''source'', JStr ''Currents API'')])"
    by (simp add: format_news_article_def and_then_def dict_get_def strip_def isspace_def whitespace_def)
  have s: "strip '' A b '' = ''A b''"
    by (simp add: strip_def isspace_def whitespace_def)
  from normalized_fields [OF run] s show ?thesis
    by (auto simp: run dict_get_def)
qed

subsection \<open>Helper lemmas on the transport\<close>

lemma mar_no_key:
  "\<not> truthy_str (get_api_key e) \<Longrightarrow>
   make_api_request e net endpoint ps s =
     (Inl (ValueError ''CURRENTS_API_KEY environment variable is required''), s)"
  by (cases "get_api_key e") (simp_all add: make_api_request_def)

lemma mar_cache: "cache (snd (make_api_request e net endpoint ps s)) = cache s"
  by (simp add: make_api_request_def get_http_client_def Let_def split: option.splits)

lemma mar_sent:
  "truthy_str (get_api_key e) \<Longrightarrow>
   sent (snd (make_api_request e net endpoint ps s)) =
     sent s @ [\<lparr>req_url = API_BASE_URL @ ''/'' @ endpoint, req_params = ps,
                req_headers = [(''User-Agent'', ''CurrentsMCP/1.0''),
                               (''Authorization'', ''Bearer '' @ (case get_api_key e of Some k \<Rightarrow> k | None \<Rightarrow> []))]\<rparr>]"
  by (cases "get_api_key e") (simp_all add: make_api_request_def get_http_client_def Let_def)

subsection \<open>Missing credential and malformed dates\<close>

text \<open>
  Claim C6. When no credential is configured (\<^verbatim>\<open>CURRENTS_API_KEY\<close> unset or empty),
  \<open>make_api_request\<close> raises the configuration error and leaves the state as it was,
  so no request has been handed to the client; \<open>check_api_status\<close> returns an
  error-tagged result with \<^verbatim>\<open>configuration.api_key_set\<close> false and leaves the state as
  it was too.
\<close>

theorem no_credential:
  assumes "\<not> truthy_str (get_api_key e)"
  shows "make_api_request e net endpoint ps s =
           (Inl (ValueError ''CURRENTS_API_KEY environment variable is required''), s)
    \<and> snd (check_api_status e net t_l t_r t_c s) = s
    \<and> json_field (fst (check_api_status e net t_l t_r t_c s)) ''status'' = JStr ''error''
    \<and> json_field (json_field (fst (check_api_status e net t_l t_r t_c s)) ''configuration'')
         ''api_key_set'' = JBool False"
  using assms mar_no_key [OF assms]
  by (simp add: check_api_status_def dict_get_def)

theorem no_credential_witness:
  "\<not> truthy_str (get_api_key (default_env None))
   \<and> make_api_request (default_env None) (\<lambda>rq. ok_response (JObj [])) ''search'' [] initial_state
       = (Inl (ValueError ''CURRENTS_API_KEY environment variable is required''), initial_state)
   \<and> snd (check_api_status (default_env None) (\<lambda>rq. ok_response (JObj [])) 0 0 0 initial_state)
       = initial_state
   \<and> sent initial_state = []"
proof -
  have h: "\<not> truthy_str (get_api_key (default_env None))"
    by (simp add: get_api_key_def default_env_def)
  from no_credential [OF h, of "\<lambda>rq. ok_response (JObj [])" "''search''" "[]" initial_state 0 0 0] h
  show ?thesis by (simp add: initial_state_def)
qed




subsection \<open>Dates that are not ISO 8601\<close>

text \<open>
  Claim C10. \<open>validate_date_format\<close> accepts whatever dateutil parses. dateutil is
  outside the repository, so that it parses \<^verbatim>\<open>Jan 5 2020\<close> is a hypothesis. Under it,
  for a string that is not in the ISO 8601 format the docstring names, the validator
  returns \<^verbatim>\<open>True\<close> and \<open>search_news\<close> (credential configured, \<^verbatim>\<open>end_date\<close> not
  rejected) hands the provider a search request that carries the string as
  \<^verbatim>\<open>start_date\<close>, instead of returning with the state unchanged.
\<close>

theorem non_iso_date_accepted:
  assumes parses: "date_parser_parse e ''Jan 5 2020'' = None"
    and key: "truthy_str (get_api_key e)"
    and end_ok: "date_rejected e end_date = Inr False"
  shows "\<not> iso_8601_format ''Jan 5 2020''
    \<and> validate_date_format e ''Jan 5 2020'' = Inr True
    \<and> (\<exists>rq. sent (snd (search_news e net keywords language country category
                          (Some ''Jan 5 2020'') end_date s)) = sent s @ [rq]
          \<and> req_url rq = API_BASE_URL @ ''/search''
          \<and> (''start_date'', ''Jan 5 2020'') \<in> set (req_params rq))"
proof -
  have iso: "\<not> iso_8601_format ''Jan 5 2020''"
    by (simp add: iso_8601_format_def is_digit_def)
  have v: "validate_date_format e ''Jan 5 2020'' = Inr True"
    using parses by (simp add: validate_date_format_def)
  have r: "date_rejected e (Some ''Jan 5 2020'') = Inr False"
    using v by (simp add: date_rejected_def and_then_def)
  have "snd (search_news e net keywords language country category (Some ''Jan 5 2020'') end_date s)
      = snd (make_api_request e net ''search''
              (add_param ''end_date'' end_date
                (add_param ''start_date'' (Some ''Jan 5 2020'')
                (add_param ''category'' category
                (add_param ''country'' country
                (add_param ''language'' language
                (add_param ''keywords'' keywords [])))))) s)"
    unfolding search_news_def r end_ok
    by (simp add: except_Exception_def Let_def split: sum.splits)
  then show ?thesis
    using iso v mar_sent [OF key]
    by (simp add: add_param_def split: option.splits)
qed

theorem non_iso_date_accepted_witness:
  "date_parser_parse (default_env (Some ''key'')) ''Jan 5 2020'' = None
   \<and> truthy_str (get_api_key (default_env (Some ''key'')))
   \<and> \<not> iso_8601_format ''Jan 5 2020''
   \<and> validate_date_format (default_env (Some ''key'')) ''Jan 5 2020'' = Inr True
   \<and> sent (snd (search_news (default_env (Some ''key'')) (\<lambda>rq. ok_response (JObj []))
                   None None None None (Some ''Jan 5 2020'') None initial_state))
       = [\<lparr>req_url = ''https://api.currentsapi.services/v1/search'',
            req_params = [(''start_date'', ''Jan 5 2020'')],
            req_headers = [(''User-Agent'', ''CurrentsMCP/1.0''),
                           (''Authorization'', ''Bearer key'')]\<rparr>]"
proof -
  have p: "date_parser_parse (default_env (Some ''key'')) ''Jan 5 2020'' = None"
    by (simp add: default_env_def sample_parser_def)
  have k: "truthy_str (get_api_key (default_env (Some ''key'')))"
    by (simp add: default_env_def get_api_key_def)
  have n: "date_rejected (default_env (Some ''key'')) None = Inr False"
    by (simp add: date_rejected_def)
  have run: "sent (snd (search_news (default_env (Some ''key'')) (\<lambda>rq. ok_response (JObj []))
                   None None None None (Some ''Jan 5 2020'') None initial_state))
       = [\<lparr>req_url = ''https://api.currentsapi.services/v1/search'',
            req_params = [(''start_date'', ''Jan 5 2020'')],
            req_headers = [(''User-Agent'', ''CurrentsMCP/1.0''),
                           (''Authorization'', ''Bearer key'')]\<rparr>]"
    by (simp add: search_news_def date_rejected_def and_then_def except_Exception_def
      validate_date_format_def default_env_def sample_parser_def add_param_def
      make_api_request_def get_api_key_def get_http_client_def initial_state_def
      API_BASE_URL_def ok_response_def dict_get_def error_result_def)
  from non_iso_date_accepted [OF p k n, of "\<lambda>rq. ok_response (JObj [])" None None None None initial_state]
    p k run
  show ?thesis by simp
qed

subsection \<open>Reference lookups and the cache\<close>

lemma cache_key_not_reserved:
  "cache_key_of ref \<noteq> ''status''" "cache_key_of ref \<noteq> ''source''"
  "''status'' \<noteq> cache_key_of ref" "''source'' \<noteq> cache_key_of ref"
  by (cases ref; simp)+

lemma reference_lookup_api:
  assumes "json_field (fst (reference_lookup ref e net tv ts s)) ''source'' = JStr ''api''"
  shows "\<exists>items n. reference_lookup ref e net tv ts s =
            (JObj [(''status'', JStr ''success''), (''source'', JStr ''api''),
                   (cache_key_of ref, items), (total_key_of ref, JInt n)],
             (snd (make_api_request e net (endpoint_of ref) [] s))
               \<lparr>cache := (cache s)(cache_key_of ref \<mapsto> \<lparr>data = items, timestamp = ts\<rparr>)\<rparr>)
          \<and> py_len items = Inr n"
  using assms
  by (auto simp: reference_lookup_def except_Exception_def Let_def and_then_def error_result_def
      dict_get_def cache_key_not_reserved set_cached_data_def mar_cache
      split: sum.splits if_splits)

text \<open>
  Claim C2, as amended. For each of the three reference operations: if a first call
  returns a result tagged \<^verbatim>\<open>source: "api"\<close> whose dataset is non-empty (true in Python's
  truth test), then a second call whose validity check reads the clock less than
  \<open>CACHE_TTL\<close> after the first call stored the entry returns the same dataset tagged
  \<^verbatim>\<open>source: "cache"\<close> and leaves the state as it was, so the provider is not contacted,
  whatever the configuration and the transport are by then. The cached result has no
  count field.
\<close>

theorem reference_lookup_cached:
  assumes first: "reference_lookup ref e1 net1 tv1 ts1 s0 = (r1, s1)"
    and api: "json_field r1 ''source'' = JStr ''api''"
    and nonempty: "truthy (json_field r1 (cache_key_of ref))"
    and within: "tv2 - ts1 < CACHE_TTL"
  shows "reference_lookup ref e2 net2 tv2 ts2 s1 =
           (JObj [(''status'', JStr ''success''), (''source'', JStr ''cache''),
                  (cache_key_of ref, json_field r1 (cache_key_of ref))], s1)"
proof -
  from api first have "json_field (fst (reference_lookup ref e1 net1 tv1 ts1 s0)) ''source'' = JStr ''api''"
    by simp
  from reference_lookup_api [OF this] first obtain items n where
    r1: "r1 = JObj [(''status'', JStr ''success''), (''source'', JStr ''api''),
                   (cache_key_of ref, items), (total_key_of ref, JInt n)]"
    and s1: "s1 = (snd (make_api_request e1 net1 (endpoint_of ref) [] s0))
               \<lparr>cache := (cache s0)(cache_key_of ref \<mapsto> \<lparr>data = items, timestamp = ts1\<rparr>)\<rparr>"
    by auto
  have f: "json_field r1 (cache_key_of ref) = items"
    by (simp add: r1 dict_get_def cache_key_not_reserved)
  have g: "get_cached_data tv2 (cache s1) (cache_key_of ref) = items"
    using within by (simp add: s1 get_cached_data_def is_cache_valid_def)
  show ?thesis
    using nonempty unfolding f
    by (simp add: reference_lookup_def g except_Exception_def)
qed

theorem reference_lookup_cached_witness:
  "reference_lookup Languages (default_env (Some ''key''))
      (\<lambda>rq. ok_response (JObj [(''status'', JStr ''ok''),
                                (''languages'', JObj [(''English'', JStr ''en'')])]))
      0 10 initial_state
    = (JObj [(''status'', JStr ''success''), (''source'', JStr ''api''),
             (''languages'', JObj [(''English'', JStr ''en'')]), (''total_languages'', JInt 1)],
       \<lparr>cache = [''languages'' \<mapsto> \<lparr>data = JObj [(''English'', JStr ''en'')], timestamp = 10\<rparr>],
        http_client = True,
        sent = [\<lparr>req_url = ''https://api.currentsapi.services/v1/available/languages'',
                  req_params = [],
                  req_headers = [(''User-Agent'', ''CurrentsMCP/1.0''),
                                 (''Authorization'', ''Bearer key'')]\<rparr>]\<rparr>)
   \<and> (309 :: real) - 10 < CACHE_TTL
   \<and> reference_lookup Languages (default_env None) (\<lambda>rq. TimeoutException) 309 400
       \<lparr>cache = [''languages'' \<mapsto> \<lparr>data = JObj [(''English'', JStr ''en'')], timestamp = 10\<rparr>],
        http_client = True,
        sent = [\<lparr>req_url = ''https://api.currentsapi.services/v1/available/languages'',
                  req_params = [],
                  req_headers = [(''User-Agent'', ''CurrentsMCP/1.0''),
                                 (''Authorization'', ''Bearer key'')]\<rparr>]\<rparr>
    = (JObj [(''status'', JStr ''success''), (''source'', JStr ''cache''),
             (''languages'', JObj [(''English'', JStr ''en'')])],
       \<lparr>cache = [''languages'' \<mapsto> \<lparr>data = JObj [(''English'', JStr ''en'')], timestamp = 10\<rparr>],
        http_client = True,
        sent = [\<lparr>req_url = ''https://api.currentsapi.services/v1/available/languages'',
                  req_params = [],
                  req_headers = [(''User-Agent'', ''CurrentsMCP/1.0''),
                                 (''Authorization'', ''Bearer key'')]\<rparr>]\<rparr>)"
proof -
  have run: "reference_lookup Languages (default_env (Some ''key''))
      (\<lambda>rq. ok_response (JObj [(''status'', JStr ''ok''),
                                (''languages'', JObj [(''English'', JStr ''en'')])]))
      0 10 initial_state
    = (JObj [(''status'', JStr ''success''), (''source'', JStr ''api''),
             (''languages'', JObj [(''English'', JStr ''en'')]), (''total_languages'', JInt 1)],
       \<lparr>cache = [''languages'' \<mapsto> \<lparr>data = JObj [(''English'', JStr ''en'')], timestamp = 10\<rparr>],
        http_client = True,
        sent = [\<lparr>req_url = ''https://api.currentsapi.services/v1/available/languages'',
                  req_params = [],
                  req_headers = [(''User-Agent'', ''CurrentsMCP/1.0''),
                                 (''Authorization'', ''Bearer key'')]\<rparr>]\<rparr>)"
    by (simp add: reference_lookup_def except_Exception_def
      get_cached_data_def is_cache_valid_def set_cached_data_def
      make_api_request_def get_api_key_def get_http_client_def default_env_def
      initial_state_def ok_response_def dict_get_def and_then_def API_BASE_URL_def Let_def)
  have w: "(309 :: real) - 10 < CACHE_TTL" by (simp add: CACHE_TTL_def)
  from reference_lookup_cached [OF run _ _ w, of "default_env None" "\<lambda>rq. TimeoutException" 400] run w
  show ?thesis by (simp add: dict_get_def)
qed

text \<open>
  Claim C2 as stated fails for an empty dataset: \<^verbatim>\<open>if cached_data:\<close> is false for
  \<^verbatim>\<open>{}\<close>, so the second call, one time unit later, contacts the provider again and is
  tagged \<^verbatim>\<open>source: "api"\<close>.
\<close>

theorem empty_dataset_refetched:
  "fst (get_available_languages (default_env (Some ''key''))
         (\<lambda>rq. ok_response (JObj [(''status'', JStr ''ok''), (''languages'', JObj [])]))
         0 0 initial_state)
     = JObj [(''status'', JStr ''success''), (''source'', JStr ''api''),
             (''languages'', JObj []), (''total_languages'', JInt 0)]
   \<and> get_available_languages (default_env (Some ''key''))
         (\<lambda>rq. ok_response (JObj [(''status'', JStr ''ok''), (''languages'', JObj [])]))
         1 1
         (snd (get_available_languages (default_env (Some ''key''))
            (\<lambda>rq. ok_response (JObj [(''status'', JStr ''ok''), (''languages'', JObj [])]))
            0 0 initial_state))
     = (JObj [(''status'', JStr ''success''), (''source'', JStr ''api''),
             (''languages'', JObj []), (''total_languages'', JInt 0)],
        \<lparr>cache = [''languages'' \<mapsto> \<lparr>data = JObj [], timestamp = 1\<rparr>],
         http_client = True,
         sent = [\<lparr>req_url = ''https://api.currentsapi.services/v1/available/languages'',
                   req_params = [],
                   req_headers = [(''User-Agent'', ''CurrentsMCP/1.0''),
                                  (''Authorization'', ''Bearer key'')]\<rparr>,
                 \<lparr>req_url = ''https://api.currentsapi.services/v1/available/languages'',
                   req_params = [],
                   req_headers = [(''User-Agent'', ''CurrentsMCP/1.0''),
                                  (''Authorization'', ''Bearer key'')]\<rparr>]\<rparr>)"
  by (simp add: get_available_languages_def reference_lookup_def except_Exception_def
      get_cached_data_def is_cache_valid_def set_cached_data_def CACHE_TTL_def
      make_api_request_def get_api_key_def get_http_client_def default_env_def
      initial_state_def ok_response_def dict_get_def and_then_def API_BASE_URL_def Let_def)

lemma mar_raises:
  "(\<not> truthy_str (get_api_key e)
    \<or> (\<forall>rq. net rq = TimeoutException)
    \<or> (\<exists>m. \<forall>rq. net rq = RequestError m)
    \<or> (\<exists>r. (\<forall>rq. net rq = Responded r)
           \<and> (status_code r = 400 \<or> status_code r = 401 \<or> status_code r = 429
                \<or> 500 \<le> status_code r \<or> raise_for_status r \<noteq> None
                \<or> (\<exists>m. json_body r = Inl m))))
   \<Longrightarrow> \<exists>x. fst (make_api_request e net endpoint ps s) = Inl x"
  by (cases "get_api_key e") (auto simp: make_api_request_def Let_def split: option.splits)

lemma reference_lookup_cache:
  "cache (snd (reference_lookup ref e net tv ts s)) =
     (if truthy (get_cached_data tv (cache s) (cache_key_of ref)) then cache s
      else case fst (make_api_request e net (endpoint_of ref) [] s) of
             Inl x \<Rightarrow> cache s
           | Inr v \<Rightarrow>
              (case v of
                 JObj body \<Rightarrow>
                   if dict_get body ''status'' JNull = JStr ''ok''
                   then (cache s)(cache_key_of ref \<mapsto>
                          \<lparr>data = dict_get body (cache_key_of ref) (default_of ref), timestamp = ts\<rparr>)
                   else cache s
               | _ \<Rightarrow> cache s))"
  by (simp add: reference_lookup_def except_Exception_def Let_def set_cached_data_def mar_cache
      split: sum.splits json.splits)

text \<open>
  Claim C9, as amended. For each reference operation, the cache after the call differs
  from the cache before only if the fetch returned a body whose \<^verbatim>\<open>status\<close> is \<^verbatim>\<open>"ok"\<close>,
  and then only the entry of the operation's key is written, with the fetched dataset
  and the time of the write. On every failure path of the fetch, that is when
  \<open>make_api_request\<close> raises or returns a response whose status is not \<^verbatim>\<open>"ok"\<close>, the
  cache is unchanged. \<open>make_api_request\<close> raises when the credential is missing, on a
  timeout, on a network failure, on an HTTP error status and on a body that is not JSON.
\<close>

theorem cache_written_only_on_ok:
  "(cache (snd (reference_lookup ref e net tv ts s)) \<noteq> cache s \<longrightarrow>
      (\<exists>body. fst (make_api_request e net (endpoint_of ref) [] s) = Inr (JObj body)
         \<and> dict_get body ''status'' JNull = JStr ''ok''
         \<and> cache (snd (reference_lookup ref e net tv ts s)) =
             (cache s)(cache_key_of ref \<mapsto>
               \<lparr>data = dict_get body (cache_key_of ref) (default_of ref), timestamp = ts\<rparr>)))
   \<and> ((\<exists>x. fst (make_api_request e net (endpoint_of ref) [] s) = Inl x) \<longrightarrow>
        cache (snd (reference_lookup ref e net tv ts s)) = cache s)
   \<and> ((\<exists>v. fst (make_api_request e net (endpoint_of ref) [] s) = Inr v
            \<and> py_get v ''status'' JNull \<noteq> Inr (JStr ''ok'')) \<longrightarrow>
        cache (snd (reference_lookup ref e net tv ts s)) = cache s)
   \<and> ((\<not> truthy_str (get_api_key e)
        \<or> (\<forall>rq. net rq = TimeoutException)
        \<or> (\<exists>m. \<forall>rq. net rq = RequestError m)
        \<or> (\<exists>r. (\<forall>rq. net rq = Responded r)
             \<and> (status_code r = 400 \<or> status_code r = 401 \<or> status_code r = 429
                  \<or> 500 \<le> status_code r \<or> raise_for_status r \<noteq> None
                  \<or> (\<exists>m. json_body r = Inl m)))) \<longrightarrow>
        (\<exists>x. fst (make_api_request e net (endpoint_of ref) [] s) = Inl x))"
proof (intro conjI impI)
  assume "cache (snd (reference_lookup ref e net tv ts s)) \<noteq> cache s"
  then show "\<exists>body. fst (make_api_request e net (endpoint_of ref) [] s) = Inr (JObj body)
         \<and> dict_get body ''status'' JNull = JStr ''ok''
         \<and> cache (snd (reference_lookup ref e net tv ts s)) =
             (cache s)(cache_key_of ref \<mapsto>
               \<lparr>data = dict_get body (cache_key_of ref) (default_of ref), timestamp = ts\<rparr>)"
    unfolding reference_lookup_cache
    by (auto split: if_splits sum.splits json.splits)
next
  assume "\<exists>x. fst (make_api_request e net (endpoint_of ref) [] s) = Inl x"
  then show "cache (snd (reference_lookup ref e net tv ts s)) = cache s"
    unfolding reference_lookup_cache by auto
next
  assume "\<exists>v. fst (make_api_request e net (endpoint_of ref) [] s) = Inr v
            \<and> py_get v ''status'' JNull \<noteq> Inr (JStr ''ok'')"
  then show "cache (snd (reference_lookup ref e net tv ts s)) = cache s"
    unfolding reference_lookup_cache by (auto split: json.splits)
next
  assume "\<not> truthy_str (get_api_key e)
        \<or> (\<forall>rq. net rq = TimeoutException)
        \<or> (\<exists>m. \<forall>rq. net rq = RequestError m)
        \<or> (\<exists>r. (\<forall>rq. net rq = Responded r)
             \<and> (status_code r = 400 \<or> status_code r = 401 \<or> status_code r = 429
                  \<or> 500 \<le> status_code r \<or> raise_for_status r \<noteq> None
                  \<or> (\<exists>m. json_body r = Inl m)))"
  then show "\<exists>x. fst (make_api_request e net (endpoint_of ref) [] s) = Inl x"
    by (rule mar_raises)
qed

theorem cache_written_only_on_ok_witness:
  "cache (snd (reference_lookup Regions (default_env (Some ''key''))
                (\<lambda>rq. ok_response (JObj [(''status'', JStr ''ok''),
                                          (''regions'', JObj [(''Spain'', JStr ''ES'')])]))
                0 7 initial_state))
     = [''regions'' \<mapsto> \<lparr>data = JObj [(''Spain'', JStr ''ES'')], timestamp = 7\<rparr>]
   \<and> cache (snd (reference_lookup Regions (default_env (Some ''key''))
                (\<lambda>rq. TimeoutException) 0 7 initial_state)) = Map.empty
   \<and> cache (snd (reference_lookup Regions (default_env (Some ''key''))
                (\<lambda>rq. ok_response (JObj [(''status'', JStr ''error'')])) 0 7 initial_state))
       = Map.empty"
proof -
  have ok: "fst (make_api_request (default_env (Some ''key''))
                (\<lambda>rq. ok_response (JObj [(''status'', JStr ''ok''),
                                          (''regions'', JObj [(''Spain'', JStr ''ES'')])]))
                (endpoint_of Regions) [] initial_state)
            = Inr (JObj [(''status'', JStr ''ok''), (''regions'', JObj [(''Spain'', JStr ''ES'')])])"
    by (simp add: make_api_request_def get_api_key_def default_env_def ok_response_def Let_def)
  have changed: "cache (snd (reference_lookup Regions (default_env (Some ''key''))
                (\<lambda>rq. ok_response (JObj [(''status'', JStr ''ok''),
                                          (''regions'', JObj [(''Spain'', JStr ''ES'')])]))
                0 7 initial_state)) \<noteq> cache initial_state"
    unfolding reference_lookup_cache ok
    by (simp add: get_cached_data_def is_cache_valid_def initial_state_def dict_get_def)
  have bad: "fst (make_api_request (default_env (Some ''key''))
                (\<lambda>rq. ok_response (JObj [(''status'', JStr ''error'')]))
                (endpoint_of Regions) [] initial_state)
            = Inr (JObj [(''status'', JStr ''error'')])"
    by (simp add: make_api_request_def get_api_key_def default_env_def ok_response_def Let_def)
  from cache_written_only_on_ok [of Regions "default_env (Some ''key'')"
      "\<lambda>rq. ok_response (JObj [(''status'', JStr ''ok''),
                                (''regions'', JObj [(''Spain'', JStr ''ES'')])])" 0 7 initial_state]
    changed ok
  have 1: "cache (snd (reference_lookup Regions (default_env (Some ''key''))
                (\<lambda>rq. ok_response (JObj [(''status'', JStr ''ok''),
                                          (''regions'', JObj [(''Spain'', JStr ''ES'')])]))
                0 7 initial_state))
     = [''regions'' \<mapsto> \<lparr>data = JObj [(''Spain'', JStr ''ES'')], timestamp = 7\<rparr>]"
    by (auto simp: dict_get_def initial_state_def)
  from cache_written_only_on_ok [of Regions "default_env (Some ''key'')"
      "\<lambda>rq. TimeoutException" 0 7 initial_state]
  have 2: "cache (snd (reference_lookup Regions (default_env (Some ''key''))
                (\<lambda>rq. TimeoutException) 0 7 initial_state)) = Map.empty"
    by (simp add: initial_state_def)
  from cache_written_only_on_ok [of Regions "default_env (Some ''key'')"
      "\<lambda>rq. ok_response (JObj [(''status'', JStr ''error'')])" 0 7 initial_state] bad
  have 3: "cache (snd (reference_lookup Regions (default_env (Some ''key''))
                (\<lambda>rq. ok_response (JObj [(''status'', JStr ''error'')])) 0 7 initial_state))
       = Map.empty"
    by (simp add: initial_state_def dict_get_def)
  from 1 2 3 show ?thesis by simp
qed

text \<open>
  Claim C9 as stated fails on a failure path that comes after the write. The provider
  answers \<^verbatim>\<open>"ok"\<close> with the number 5 as the dataset: \<open>set_cached_data\<close> stores it,
  then \<^verbatim>\<open>len\<close> raises \<^verbatim>\<open>TypeError\<close>, and the call returns an error result with the
  cache written.
\<close>

theorem dataset_without_length_cached:
  "get_available_languages (default_env (Some ''key''))
     (\<lambda>rq. ok_response (JObj [(''status'', JStr ''ok''), (''languages'', JInt 5)]))
     0 7 initial_state
   = (error_result (''object of type '' @ quote ''int'' @ '' has no len()''),
      \<lparr>cache = [''languages'' \<mapsto> \<lparr>data = JInt 5, timestamp = 7\<rparr>],
       http_client = True,
       sent = [\<lparr>req_url = ''https://api.currentsapi.services/v1/available/languages'',
                 req_params = [],
                 req_headers = [(''User-Agent'', ''CurrentsMCP/1.0''),
                                (''Authorization'', ''Bearer key'')]\<rparr>]\<rparr>)
   \<and> cache initial_state = Map.empty"
  by (simp add: get_available_languages_def reference_lookup_def except_Exception_def
      get_cached_data_def is_cache_valid_def set_cached_data_def
      make_api_request_def get_api_key_def get_http_client_def default_env_def
      initial_state_def ok_response_def dict_get_def and_then_def API_BASE_URL_def Let_def
      error_result_def)

subsection \<open>Search results\<close>

lemma format_all_Inr:
  "format_all xs = Inr rs \<Longrightarrow> map format_news_article xs = map Inr rs"
proof (induction xs arbitrary: rs)
  case Nil
  then show ?case by simp
next
  case (Cons a xs)
  then show ?case
    by (auto simp: and_then_def split: sum.splits)
qed

lemma format_dict_returns:
  assumes "is_str (dict_get d ''title'' (JStr ''''))"
    and "is_str (dict_get d ''description'' (JStr ''''))"
  shows "\<exists>r. format_news_article (JObj d) = Inr r"
proof -
  from assms obtain t u where "dict_get d ''title'' (JStr '''') = JStr t"
    "dict_get d ''description'' (JStr '''') = JStr u"
    by (metis is_str.elims(2))
  then show ?thesis
    by (simp add: format_news_article_def and_then_def)
qed

lemma format_all_returns:
  "\<forall>a \<in> set xs. \<exists>r. format_news_article a = Inr r \<Longrightarrow> \<exists>rs. format_all xs = Inr rs"
  by (induction xs) (auto simp: and_then_def)

lemma length_slice_upto:
  "length (slice_upto xs m) =
     (if 0 \<le> m then min (length xs) (nat m) else length xs - nat (- m))"
  by (simp add: slice_upto_def)

lemma mar_ok:
  assumes "truthy_str (get_api_key e)" and "\<And>rq. net rq = Responded r"
    and "status_code r \<noteq> 400" "status_code r \<noteq> 401" "status_code r \<noteq> 429"
    and "status_code r < 500" and "raise_for_status r = None" and "json_body r = Inr v"
  shows "fst (make_api_request e net endpoint ps s) = Inr v"
  using assms by (cases "get_api_key e") (simp_all add: make_api_request_def Let_def)
text \<open>
  Claim C7, as amended. For a \<open>search_news\<close> invocation with the credential
  configured, both dates absent, empty or accepted by the validator, and a provider
  response with a success status whose body has \<^verbatim>\<open>status\<close> \<^verbatim>\<open>"ok"\<close> and a list of \<open>n\<close>
  articles under \<^verbatim>\<open>news\<close>: if each article that the slice
  \<^verbatim>\<open>articles[:MAX_RESULTS]\<close> selects is a dictionary whose \<^verbatim>\<open>title\<close> and \<^verbatim>\<open>description\<close>
  are absent or strings, the result is the success result, its articles are the
  normalized selected articles in order, their number is \<open>min n MAX_RESULTS\<close> when
  \<open>MAX_RESULTS\<close> is not negative (and \<open>n - |MAX_RESULTS|\<close>, at least 0, when it is),
  and \<^verbatim>\<open>search_params\<close> holds the six filter parameters as given.
\<close>

theorem search_success:
  assumes key: "truthy_str (get_api_key e)"
    and start_ok: "date_rejected e start_date = Inr False"
    and end_ok: "date_rejected e end_date = Inr False"
    and net: "\<And>rq. net rq = Responded r"
    and code: "status_code r \<noteq> 400" "status_code r \<noteq> 401" "status_code r \<noteq> 429"
      "status_code r < 500" "raise_for_status r = None"
    and body: "json_body r = Inr (JObj body)"
    and ok: "dict_get body ''status'' JNull = JStr ''ok''"
    and news: "dict_get body ''news'' (JList []) = JList articles"
    and wf: "\<forall>a \<in> set (slice_upto articles (MAX_RESULTS e)).
               \<exists>d. a = JObj d \<and> is_str (dict_get d ''title'' (JStr ''''))
                     \<and> is_str (dict_get d ''description'' (JStr ''''))"
  shows "\<exists>formatted.
      fst (search_news e net keywords language country category start_date end_date s) =
        JObj [(''status'', JStr ''success''),
              (''total_results'', JInt (int (length formatted))),
              (''articles'', JList formatted),
              (''search_params'', JObj
                 [(''keywords'', opt_json keywords),
                  (''language'', opt_json language),
                  (''country'', opt_json country),
                  (''category'', opt_json category),
                  (''start_date'', opt_json start_date),
                  (''end_date'', opt_json end_date)])]
      \<and> map Inr formatted = map format_news_article (slice_upto articles (MAX_RESULTS e))
      \<and> length formatted =
          (if 0 \<le> MAX_RESULTS e then min (length articles) (nat (MAX_RESULTS e))
           else length articles - nat (- MAX_RESULTS e))"
proof -
  have "\<forall>a \<in> set (slice_upto articles (MAX_RESULTS e)). \<exists>r. format_news_article a = Inr r"
  proof
    fix a
    assume "a \<in> set (slice_upto articles (MAX_RESULTS e))"
    with wf obtain d where "a = JObj d" "is_str (dict_get d ''title'' (JStr ''''))"
      "is_str (dict_get d ''description'' (JStr ''''))"
      by auto
    then show "\<exists>r. format_news_article a = Inr r"
      by (simp add: format_dict_returns)
  qed
  from format_all_returns [OF this]
  obtain formatted where f: "format_all (slice_upto articles (MAX_RESULTS e)) = Inr formatted" ..
  have m: "map Inr formatted = map format_news_article (slice_upto articles (MAX_RESULTS e))"
    using format_all_Inr [OF f] by simp
  have "length (map format_news_article (slice_upto articles (MAX_RESULTS e))) = length formatted"
    unfolding m [symmetric] by simp
  then have l: "length formatted = length (slice_upto articles (MAX_RESULTS e))"
    by simp
  have called: "\<And>ps. fst (make_api_request e net ''search'' ps s) = Inr (JObj body)"
    using mar_ok [OF key net code body] .
  have "fst (search_news e net keywords language country category start_date end_date s) =
        JObj [(''status'', JStr ''success''),
              (''total_results'', JInt (int (length formatted))),
              (''articles'', JList formatted),
              (''search_params'', JObj
                 [(''keywords'', opt_json keywords),
                  (''language'', opt_json language),
                  (''country'', opt_json country),
                  (''category'', opt_json category),
                  (''start_date'', opt_json start_date),
                  (''end_date'', opt_json end_date)])]"
    unfolding search_news_def start_ok end_ok
    by (simp add: called ok news f and_then_def except_Exception_def Let_def)
  with m l length_slice_upto [of articles "MAX_RESULTS e"] show ?thesis
    by (intro exI [of _ formatted]) simp
qed

theorem search_success_witness:
  "\<exists>formatted.
      fst (search_news (default_env (Some ''key''))
             (\<lambda>rq. ok_response (JObj [(''status'', JStr ''ok''),
                                       (''news'', JList (replicate 25 (JObj [])))]))
             (Some ''ai'') None None None (Some ''2024-01-05T00:00:00+00:00'') None
             initial_state) =
        JObj [(''status'', JStr ''success''),
              (''total_results'', JInt (int (length formatted))),
              (''articles'', JList formatted),
              (''search_params'', JObj
                 [(''keywords'', JStr ''ai''),
                  (''language'', JNull),
                  (''country'', JNull),
                  (''category'', JNull),
                  (''start_date'', JStr ''2024-01-05T00:00:00+00:00''),
                  (''end_date'', JNull)])]
      \<and> length formatted = 20"
proof -
  let ?e = "default_env (Some ''key'')"
  let ?r = "\<lparr>status_code = 200, raise_for_status = None,
             json_body = Inr (JObj [(''status'', JStr ''ok''),
                                    (''news'', JList (replicate 25 (JObj [])))])\<rparr>"
  have key: "truthy_str (get_api_key ?e)"
    by (simp add: default_env_def get_api_key_def)
  have start_ok: "date_rejected ?e (Some ''2024-01-05T00:00:00+00:00'') = Inr False"
    by (simp add: date_rejected_def validate_date_format_def default_env_def sample_parser_def
        and_then_def)
  have end_ok: "date_rejected ?e None = Inr False"
    by (simp add: date_rejected_def)
  have net: "\<And>rq. (\<lambda>rq. ok_response (JObj [(''status'', JStr ''ok''),
                                       (''news'', JList (replicate 25 (JObj [])))])) rq
              = Responded ?r"
    by (simp add: ok_response_def)
  have m: "MAX_RESULTS ?e = 20" by (simp add: default_env_def)
  have wf: "\<forall>a \<in> set (slice_upto (replicate 25 (JObj [])) (MAX_RESULTS ?e)).
               \<exists>d. a = JObj d \<and> is_str (dict_get d ''title'' (JStr ''''))
                     \<and> is_str (dict_get d ''description'' (JStr ''''))"
    by (simp add: m slice_upto_def dict_get_def)
  from search_success [of ?e "Some ''2024-01-05T00:00:00+00:00''" None _ ?r
      "[(''status'', JStr ''ok''), (''news'', JList (replicate 25 (JObj [])))]"
      "replicate 25 (JObj [])" "Some ''ai''" None None None initial_state,
      OF key start_ok end_ok net _ _ _ _ _ _ _ _ wf]
  show ?thesis
    apply (simp add: dict_get_def m)
    apply (erule exE)
    subgoal for formatted
      by (rule exI [of _ formatted]) simp
    done
qed

text \<open>
  Claim C7 as stated fails twice. The provider answers \<^verbatim>\<open>"ok"\<close> with one article whose
  \<^verbatim>\<open>title\<close> is \<^verbatim>\<open>None\<close>: the result is the error result of the \<^verbatim>\<open>AttributeError\<close>, not
  a success with one article. With \<^verbatim>\<open>MAX_RESULTS\<close> set to \<open>-1\<close> and three articles, the
  slice drops the last one and the result holds two articles, not \<open>min 3 (-1)\<close>.
\<close>

theorem search_fails_on_none_title:
  "fst (search_news (default_env (Some ''key''))
         (\<lambda>rq. ok_response (JObj [(''status'', JStr ''ok''),
                                   (''news'', JList [JObj [(''title'', JNull)]])]))
         None None None None None None initial_state)
     = error_result (no_attribute JNull ''strip'')
   \<and> json_field
        (fst (search_news ((default_env (Some ''key'')) \<lparr>MAX_RESULTS := - 1\<rparr>)
           (\<lambda>rq. ok_response (JObj [(''status'', JStr ''ok''),
                                     (''news'', JList [JObj [], JObj [], JObj []])]))
           None None None None None None initial_state))
        ''total_results'' = JInt 2"
  by (simp add: search_news_def date_rejected_def and_then_def except_Exception_def
      default_env_def add_param_def make_api_request_def get_api_key_def Let_def
      ok_response_def dict_get_def slice_upto_def format_news_article_def)

subsection \<open>Upstream failures\<close>

lemma call_tool_no_key:
  assumes "\<not> truthy_str (get_api_key e)"
  shows "sent (snd (call_tool e net rd call s)) = sent s"
proof (cases call)
  case (SearchNews kw lang cnt cat sd ed)
  show ?thesis
    unfolding SearchNews call_tool.simps search_news_def
    by (simp add: mar_no_key [OF assms] except_Exception_def Let_def split: sum.splits)
next
  case (GetLatestNews language)
  show ?thesis
    unfolding GetLatestNews call_tool.simps get_latest_news_def
    by (simp add: mar_no_key [OF assms] except_Exception_def Let_def and_then_def)
next
  case (GetAvailable ref)
  have "sent (snd (reference_lookup ref e net (t_valid rd) (t_set rd) s)) = sent s"
    unfolding reference_lookup_def
    by (simp add: mar_no_key [OF assms] except_Exception_def Let_def)
  then show ?thesis
    unfolding GetAvailable
    by (cases ref)
      (simp_all add: get_available_languages_def get_available_regions_def
        get_available_categories_def)
next
  case CheckApiStatus
  show ?thesis
    unfolding CheckApiStatus call_tool.simps check_api_status_def
    using assms by simp
qed

lemma call_tool_error:
  assumes fails: "\<And>endpoint ps. fst (make_api_request e net endpoint ps s) = Inl x"
    and reached: "sent (snd (call_tool e net rd call s)) \<noteq> sent s"
  shows "reports call (fst (call_tool e net rd call s)) (str_exn x)"
proof (cases call)
  case (SearchNews kw lang cnt cat sd ed)
  show ?thesis
    using reached unfolding SearchNews call_tool.simps search_news_def reports_def
    by (simp add: fails except_Exception_def Let_def and_then_def error_result_def dict_get_def
        split: sum.splits if_splits)
next
  case (GetLatestNews language)
  show ?thesis
    unfolding GetLatestNews call_tool.simps get_latest_news_def reports_def
    by (simp add: fails except_Exception_def Let_def and_then_def error_result_def dict_get_def)
next
  case (GetAvailable ref)
  have "sent (snd (reference_lookup ref e net (t_valid rd) (t_set rd) s)) \<noteq> sent s"
    using reached unfolding GetAvailable
    by (cases ref)
      (simp_all add: get_available_languages_def get_available_regions_def
        get_available_categories_def)
  then have "reports (GetAvailable ref) (fst (reference_lookup ref e net (t_valid rd) (t_set rd) s))
      (str_exn x)"
    unfolding reference_lookup_def reports_def
    by (simp add: fails except_Exception_def Let_def error_result_def dict_get_def
        split: if_splits)
  then show ?thesis
    unfolding GetAvailable
    by (cases ref)
      (simp_all add: get_available_languages_def get_available_regions_def
        get_available_categories_def)
next
  case CheckApiStatus
  show ?thesis
    using reached unfolding CheckApiStatus call_tool.simps check_api_status_def reports_def
    by (simp add: fails Let_def and_then_def dict_get_def split: if_splits)
qed

lemma mar_classified:
  assumes "truthy_str (get_api_key e)" and "\<And>rq. net rq = t"
  shows "(t = TimeoutException \<longrightarrow>
            fst (make_api_request e net endpoint ps s) =
              Inl (ValueError (''Request timeout after '' @ str_int (DEFAULT_TIMEOUT e)
                                @ '' seconds'')))
       \<and> (\<forall>r. t = Responded r \<and> status_code r = 429 \<longrightarrow>
            fst (make_api_request e net endpoint ps s) =
              Inl (ValueError ''Rate limit exceeded. Free tier allows 600 requests per hour.''))
       \<and> (\<forall>r. t = Responded r \<and> status_code r = 401 \<longrightarrow>
            fst (make_api_request e net endpoint ps s) =
              Inl (ValueError ''Invalid API key. Please check your CURRENTS_API_KEY.''))"
  using assms by (cases "get_api_key e") (simp_all add: make_api_request_def Let_def)

text \<open>
  Claim C5. For every tool invocation that hands a request to the provider: when the
  provider answers with HTTP status 429 the result is error-tagged and carries the
  rate-limit message, which names 600 requests per hour; when it answers 401 the result
  is error-tagged and carries the invalid-key message; when the transport times out the
  result is error-tagged and its message names \<open>DEFAULT_TIMEOUT\<close>. The status check
  puts its own words before the message.
\<close>

theorem upstream_failures_reported:
  assumes reached: "sent (snd (call_tool e net rd call s)) \<noteq> sent s"
    and net: "\<And>rq. net rq = t"
  shows "(\<forall>r. t = Responded r \<and> status_code r = 429 \<longrightarrow>
            reports call (fst (call_tool e net rd call s))
              ''Rate limit exceeded. Free tier allows 600 requests per hour.'')
       \<and> (\<forall>r. t = Responded r \<and> status_code r = 401 \<longrightarrow>
            reports call (fst (call_tool e net rd call s))
              ''Invalid API key. Please check your CURRENTS_API_KEY.'')
       \<and> (t = TimeoutException \<longrightarrow>
            reports call (fst (call_tool e net rd call s))
              (''Request timeout after '' @ str_int (DEFAULT_TIMEOUT e) @ '' seconds''))"
proof -
  have key: "truthy_str (get_api_key e)"
    using reached call_tool_no_key by (rule contrapos_np)
  note c = mar_classified [OF key net]
  show ?thesis
  proof (intro conjI allI impI)
    fix r
    assume "t = Responded r \<and> status_code r = 429"
    with c have "\<And>endpoint ps. fst (make_api_request e net endpoint ps s) =
        Inl (ValueError ''Rate limit exceeded. Free tier allows 600 requests per hour.'')"
      by simp
    from call_tool_error [OF this reached]
    show "reports call (fst (call_tool e net rd call s))
              ''Rate limit exceeded. Free tier allows 600 requests per hour.''"
      by simp
  next
    fix r
    assume "t = Responded r \<and> status_code r = 401"
    with c have "\<And>endpoint ps. fst (make_api_request e net endpoint ps s) =
        Inl (ValueError ''Invalid API key. Please check your CURRENTS_API_KEY.'')"
      by simp
    from call_tool_error [OF this reached]
    show "reports call (fst (call_tool e net rd call s))
              ''Invalid API key. Please check your CURRENTS_API_KEY.''"
      by simp
  next
    assume "t = TimeoutException"
    with c have "\<And>endpoint ps. fst (make_api_request e net endpoint ps s) =
        Inl (ValueError (''Request timeout after '' @ str_int (DEFAULT_TIMEOUT e) @ '' seconds''))"
      by simp
    from call_tool_error [OF this reached]
    show "reports call (fst (call_tool e net rd call s))
              (''Request timeout after '' @ str_int (DEFAULT_TIMEOUT e) @ '' seconds'')"
      by simp
  qed
qed

theorem upstream_failures_reported_witness:
  "reports (GetLatestNews None)
     (fst (call_tool (default_env (Some ''key'')) (\<lambda>rq. status_response 429)
            \<lparr>t_valid = 0, t_set = 0, t_languages = 0, t_regions = 0, t_categories = 0,
             now_isoformat = ''2024-01-05T10:00:00''\<rparr>
            (GetLatestNews None) initial_state))
     ''Rate limit exceeded. Free tier allows 600 requests per hour.''
   \<and> reports CheckApiStatus
     (fst (call_tool (default_env (Some ''key'')) (\<lambda>rq. status_response 401)
            \<lparr>t_valid = 0, t_set = 0, t_languages = 0, t_regions = 0, t_categories = 0,
             now_isoformat = ''2024-01-05T10:00:00''\<rparr>
            CheckApiStatus initial_state))
     ''Invalid API key. Please check your CURRENTS_API_KEY.''
   \<and> reports (GetAvailable Languages)
     (fst (call_tool (default_env (Some ''key'')) (\<lambda>rq. TimeoutException)
            \<lparr>t_valid = 0, t_set = 0, t_languages = 0, t_regions = 0, t_categories = 0,
             now_isoformat = ''2024-01-05T10:00:00''\<rparr>
            (GetAvailable Languages) initial_state))
     ''Request timeout after 15 seconds''"
proof -
  let ?e = "default_env (Some ''key'')"
  let ?rd = "\<lparr>t_valid = 0, t_set = 0, t_languages = 0, t_regions = 0, t_categories = 0,
             now_isoformat = ''2024-01-05T10:00:00''\<rparr>"
  have key: "truthy_str (get_api_key ?e)"
    by (simp add: default_env_def get_api_key_def)
  have sent0: "sent initial_state = []"
    by (simp add: initial_state_def)
  have r1: "sent (snd (call_tool ?e (\<lambda>rq. status_response 429) ?rd (GetLatestNews None)
                    initial_state)) \<noteq> sent initial_state"
    by (simp add: get_latest_news_def except_Exception_def Let_def mar_sent [OF key] sent0
        split: sum.splits)
  have r2: "sent (snd (call_tool ?e (\<lambda>rq. status_response 401) ?rd CheckApiStatus
                    initial_state)) \<noteq> sent initial_state"
    by (simp add: check_api_status_def Let_def key mar_sent [OF key] sent0 split: sum.splits)
  have empty: "get_cached_data 0 (cache initial_state) ''languages'' = JNull"
    by (simp add: get_cached_data_def is_cache_valid_def initial_state_def)
  have r3: "sent (snd (call_tool ?e (\<lambda>rq. TimeoutException) ?rd (GetAvailable Languages)
                    initial_state)) \<noteq> sent initial_state"
    by (simp add: get_available_languages_def reference_lookup_def except_Exception_def Let_def
        empty mar_sent [OF key] sent0 split: sum.splits)
  have t: "str_int (DEFAULT_TIMEOUT ?e) = ''15''"
    by (simp add: default_env_def str_int_def str_nat.simps digit_char_def)
  from upstream_failures_reported [OF r1, of "status_response 429"]
    upstream_failures_reported [OF r2, of "status_response 401"]
    upstream_failures_reported [OF r3, of TimeoutException] t
  show ?thesis
    by (simp add: status_response_def)
qed

end
